theory Spec2Isabelle
  imports
    Main
    "HOL-Library.Char_ord"
    "HOL-Library.List_Lexorder"
    "HOL-Library.AList"
    "HOL-Library.Signed_Division"
begin

section \<open>libuci: a shallow embedding of \<open>ext/libuci/uci.cpp\<close>\<close>

text \<open>
  The C++ exceptions that \<open>uci.cpp\<close> throws, or lets escape from the standard
  library, are values of one datatype. \<open>InputError\<close> is the library's own exception;
  the other three are \<open>std::invalid_argument\<close>, \<open>std::out_of_range\<close> and
  \<open>std::bad_variant_access\<close>.
\<close>

datatype error =
    InputError string
  | InvalidArgument string
  | OutOfRange string
  | BadVariantAccess

subsection \<open>Argument parsing: \<open>ArgReader\<close>\<close>

text \<open>\<open>std::isspace\<close> in the "C" locale: space, and the controls \<open>\t \n \v \f \r\<close>.\<close>

definition isspace :: "char \<Rightarrow> bool" where
  "isspace c \<longleftrightarrow>
     c = CHR '' '' \<or> c = CHR 0x09 \<or> c = CHR 0x0A \<or> c = CHR 0x0B \<or> c = CHR 0x0C \<or> c = CHR 0x0D"

record ArgReader =
  m_arg_str :: string
  m_pos :: nat

text \<open>The constructor \<open>ArgReader(str)\<close>.\<close>

definition new_ArgReader :: "string \<Rightarrow> ArgReader" where
  "new_ArgReader str = \<lparr>m_arg_str = str, m_pos = 0\<rparr>"

definition finished :: "ArgReader \<Rightarrow> bool" where
  "finished r \<longleftrightarrow> m_pos r \<ge> length (m_arg_str r)"

text \<open>
  \<open>string_view::substr(pos, n)\<close>, for \<open>pos \<le> size\<close> (the only way the reader calls
  it: the cursor never passes the end).
\<close>

definition substr :: "string \<Rightarrow> nat \<Rightarrow> nat \<Rightarrow> string" where
  "substr s pos n = take n (drop pos s)"

text \<open>The \<open>while\<close> loops of \<open>read_until\<close> and \<open>read_while\<close>, on the cursor.\<close>

function read_until_loop :: "(char \<Rightarrow> bool) \<Rightarrow> string \<Rightarrow> nat \<Rightarrow> nat" where
  "read_until_loop pred s pos =
     (if pos < length s \<and> \<not> pred (s ! pos) then read_until_loop pred s (Suc pos) else pos)"
  by pat_completeness auto
termination
  by (relation "measure (\<lambda>(pred, s, pos). length s - pos)") auto

function read_while_loop :: "(char \<Rightarrow> bool) \<Rightarrow> string \<Rightarrow> nat \<Rightarrow> nat" where
  "read_while_loop pred s pos =
     (if pos < length s \<and> pred (s ! pos) then read_while_loop pred s (Suc pos) else pos)"
  by pat_completeness auto
termination
  by (relation "measure (\<lambda>(pred, s, pos). length s - pos)") auto

declare read_until_loop.simps [simp del]
declare read_while_loop.simps [simp del]

definition read_until :: "(char \<Rightarrow> bool) \<Rightarrow> ArgReader \<Rightarrow> string \<times> ArgReader" where
  "read_until pred r =
     (if finished r then ([], r)
      else let start_pos = m_pos r;
               p = read_until_loop pred (m_arg_str r) start_pos
           in (substr (m_arg_str r) start_pos (p - start_pos), r\<lparr>m_pos := p\<rparr>))"

definition read_while :: "(char \<Rightarrow> bool) \<Rightarrow> ArgReader \<Rightarrow> string \<times> ArgReader" where
  "read_while pred r =
     (if finished r then ([], r)
      else let start_pos = m_pos r;
               p = read_while_loop pred (m_arg_str r) start_pos
           in (substr (m_arg_str r) start_pos (p - start_pos), r\<lparr>m_pos := p\<rparr>))"

definition skip_whitespace :: "ArgReader \<Rightarrow> ArgReader" where
  "skip_whitespace r = snd (read_while isspace r)"

definition peek_remainder :: "ArgReader \<Rightarrow> string" where
  "peek_remainder r = drop (m_pos r) (m_arg_str r)"

definition read_word :: "ArgReader \<Rightarrow> string \<times> ArgReader" where
  "read_word r = read_until isspace (skip_whitespace r)"

text \<open>
  \<open>std::stoll(str)\<close> of the C++ standard library, base 10: it skips leading
  whitespace, takes an optional sign and the longest run of decimal digits, and ignores
  whatever follows. It throws \<open>std::invalid_argument\<close> when there is no digit, and
  \<open>std::out_of_range\<close> when the value does not fit \<open>long long\<close> (64 bits).
  A \<open>std::int64_t\<close> is an \<open>int\<close> here; the range check is the only place where
  the width matters, since the library never computes with these values.
\<close>

definition isdigit :: "char \<Rightarrow> bool" where
  "isdigit c \<longleftrightarrow> CHR ''0'' \<le> c \<and> c \<le> CHR ''9''"

definition digit_value :: "char \<Rightarrow> int" where
  "digit_value c = int (of_char c) - 48"

definition digits_value :: "string \<Rightarrow> int" where
  "digits_value ds = foldl (\<lambda>acc c. 10 * acc + digit_value c) 0 ds"

definition INT64_MAX :: int where
  "INT64_MAX = 9223372036854775807"

definition INT64_MIN :: int where
  "INT64_MIN = - 9223372036854775808"

definition strip_sign :: "string \<Rightarrow> bool \<times> string" where
  "strip_sign s =
     (case s of
        [] \<Rightarrow> (False, [])
      | c # cs \<Rightarrow>
          if c = CHR ''-'' then (True, cs)
          else if c = CHR ''+'' then (False, cs)
          else (False, s))"

definition stoll :: "string \<Rightarrow> error + int" where
  "stoll str =
     (let (neg, s) = strip_sign (dropWhile isspace str);
          ds = takeWhile isdigit s
      in if ds = [] then Inl (InvalidArgument ''stoll'')
         else let v = (if neg then - digits_value ds else digits_value ds)
              in if v < INT64_MIN \<or> INT64_MAX < v then Inl (OutOfRange ''stoll'')
                 else Inr v)"

text \<open>
  \<open>try_read_int\<close> returns the reader it leaves behind together with its outcome:
  \<open>Inr (Some n)\<close> for a value, \<open>Inr None\<close> for \<open>std::nullopt\<close>, \<open>Inl e\<close> for an
  exception that leaves the function. Only \<open>std::invalid_argument\<close> is caught.
\<close>

definition try_read_int :: "ArgReader \<Rightarrow> (error + int option) \<times> ArgReader" where
  "try_read_int r =
     (let pos_before = m_pos r;
          r1 = skip_whitespace r;
          (int_str, r2) = read_word r1
      in case stoll int_str of
           Inr n \<Rightarrow> (Inr (Some n), r2)
         | Inl (InvalidArgument msg) \<Rightarrow> (Inr None, r2\<lparr>m_pos := pos_before\<rparr>)
         | Inl e \<Rightarrow> (Inl e, r2))"

definition read_int :: "ArgReader \<Rightarrow> (error + int) \<times> ArgReader" where
  "read_int r =
     (case try_read_int r of
        (Inl e, r') \<Rightarrow> (Inl e, r')
      | (Inr None, r') \<Rightarrow> (Inl (InputError ''Expected an integer number.''), r')
      | (Inr (Some n), r') \<Rightarrow> (Inr n, r'))"


subsection \<open>Facts about the reader's loops\<close>

text \<open>
  Both loops move the cursor forward and never past the end of the text; the one of
  \<open>read_until\<close> is the one of \<open>read_while\<close> for the negated predicate.
  \<open>read_word\<close> therefore has a closed form, and a word that is not empty moves the
  cursor.
\<close>

lemma read_until_loop_eq_while:
  "read_until_loop pred s pos = read_while_loop (\<lambda>c. \<not> pred c) s pos"
proof (induction "\<lambda>c. \<not> pred c" s pos rule: read_while_loop.induct)
  case (1 s pos)
  then show ?case
    by (subst read_until_loop.simps, subst read_while_loop.simps) simp
qed

lemma read_while_loop_ge: "pos \<le> read_while_loop pred s pos"
proof (induction pred s pos rule: read_while_loop.induct)
  case (1 pred s pos)
  show ?case
  proof (cases "pos < length s \<and> pred (s ! pos)")
    case True
    with "1" have "Suc pos \<le> read_while_loop pred s (Suc pos)" by simp
    with True show ?thesis by (subst read_while_loop.simps) simp
  next
    case False
    then show ?thesis by (subst read_while_loop.simps) auto
  qed
qed

lemma read_while_loop_le: "pos \<le> length s \<Longrightarrow> read_while_loop pred s pos \<le> length s"
proof (induction pred s pos rule: read_while_loop.induct)
  case (1 pred s pos)
  show ?case
  proof (cases "pos < length s \<and> pred (s ! pos)")
    case True
    with "1" have "read_while_loop pred s (Suc pos) \<le> length s" by simp
    with True show ?thesis by (subst read_while_loop.simps) simp
  next
    case False
    with "1.prems" show ?thesis by (subst read_while_loop.simps) auto
  qed
qed

lemma read_while_loop_stops:
  "read_while_loop pred s pos < length s \<Longrightarrow> \<not> pred (s ! read_while_loop pred s pos)"
proof (induction pred s pos rule: read_while_loop.induct)
  case (1 pred s pos)
  show ?case
  proof (cases "pos < length s \<and> pred (s ! pos)")
    case True
    then have eq: "read_while_loop pred s pos = read_while_loop pred s (Suc pos)"
      by (subst read_while_loop.simps) simp
    with "1" True show ?thesis by simp
  next
    case False
    then have eq: "read_while_loop pred s pos = pos"
      by (subst read_while_loop.simps) auto
    with "1.prems" False show ?thesis by auto
  qed
qed

lemma read_while_loop_append:
  "\<forall>c \<in> set xs. pred c \<Longrightarrow> post = [] \<or> \<not> pred (hd post) \<Longrightarrow>
   read_while_loop pred (pre @ xs @ post) (length pre) = length pre + length xs"
proof (induction xs arbitrary: pre)
  case Nil
  then show ?case
    by (subst read_while_loop.simps) (auto simp: nth_append hd_conv_nth)
next
  case (Cons x xs)
  from Cons.prems have "read_while_loop pred ((pre @ [x]) @ xs @ post) (length (pre @ [x]))
                        = length (pre @ [x]) + length xs"
    by (intro Cons.IH) auto
  with Cons.prems show ?case
    by (subst read_while_loop.simps) (simp add: nth_append)
qed

lemma skip_whitespace_eq:
  "skip_whitespace r = r\<lparr>m_pos := read_while_loop isspace (m_arg_str r) (m_pos r)\<rparr>"
proof (cases "finished r")
  case True
  then have "read_while_loop isspace (m_arg_str r) (m_pos r) = m_pos r"
    by (subst read_while_loop.simps) (simp add: finished_def)
  with True show ?thesis by (simp add: skip_whitespace_def read_while_def)
next
  case False
  then show ?thesis by (simp add: skip_whitespace_def read_while_def Let_def)
qed

lemma read_until_eq:
  "read_until pred r =
     (substr (m_arg_str r) (m_pos r) (read_until_loop pred (m_arg_str r) (m_pos r) - m_pos r),
      r\<lparr>m_pos := read_until_loop pred (m_arg_str r) (m_pos r)\<rparr>)"
proof (cases "finished r")
  case True
  then have "read_until_loop pred (m_arg_str r) (m_pos r) = m_pos r"
    by (subst read_until_loop.simps) (simp add: finished_def)
  with True show ?thesis by (simp add: read_until_def substr_def)
next
  case False
  then show ?thesis by (simp add: read_until_def Let_def)
qed

lemma read_word_eq:
  "read_word r =
     (let q = read_while_loop isspace (m_arg_str r) (m_pos r);
          e = read_until_loop isspace (m_arg_str r) q
      in (substr (m_arg_str r) q (e - q), r\<lparr>m_pos := e\<rparr>))"
  by (simp add: read_word_def read_until_eq skip_whitespace_eq Let_def)

lemma read_word_progress:
  assumes "m_pos r < length (m_arg_str r)" and "read_word (skip_whitespace r) = (w, r')"
  shows "m_arg_str r' = m_arg_str r \<and> m_pos r < m_pos r' \<and> m_pos r' \<le> length (m_arg_str r)"
proof -
  let ?s = "m_arg_str r"
  let ?q = "read_while_loop isspace ?s (m_pos r)"
  let ?q' = "read_while_loop isspace ?s ?q"
  let ?e = "read_while_loop (\<lambda>c. \<not> isspace c) ?s ?q'"
  have r': "r' = r\<lparr>m_pos := ?e\<rparr>"
    using assms(2) by (simp add: read_word_eq skip_whitespace_eq Let_def read_until_loop_eq_while)
  have q: "m_pos r \<le> ?q" "?q \<le> ?q'" "?q' \<le> ?e" by (rule read_while_loop_ge)+
  have le: "?e \<le> length ?s" using assms(1) by (simp add: read_while_loop_le)
  have "m_pos r < ?e"
  proof (cases "m_pos r < ?q'")
    case True
    with q show ?thesis by simp
  next
    case False
    with q have eq: "?q' = m_pos r" by simp
    with assms(1) have "\<not> isspace (?s ! m_pos r)"
      using read_while_loop_stops [of isspace ?s ?q] by simp
    with assms(1) have "?e = read_while_loop (\<lambda>c. \<not> isspace c) ?s (Suc (m_pos r))"
      unfolding eq by (subst read_while_loop.simps) simp
    moreover have "Suc (m_pos r) \<le> read_while_loop (\<lambda>c. \<not> isspace c) ?s (Suc (m_pos r))"
      by (rule read_while_loop_ge)
    ultimately show ?thesis by simp
  qed
  with r' le show ?thesis by simp
qed

lemma read_word_nonempty:
  assumes "read_word r = (w, r')" and "w \<noteq> []"
  shows "m_arg_str r' = m_arg_str r \<and> m_pos r < m_pos r' \<and> m_pos r' \<le> length (m_arg_str r)"
proof -
  let ?s = "m_arg_str r"
  let ?q = "read_while_loop isspace ?s (m_pos r)"
  let ?e = "read_while_loop (\<lambda>c. \<not> isspace c) ?s ?q"
  have r': "r' = r\<lparr>m_pos := ?e\<rparr>" and w: "w = substr ?s ?q (?e - ?q)"
    using assms(1) by (simp_all add: read_word_eq Let_def read_until_loop_eq_while)
  from w assms(2) have "?q < ?e" "?q < length ?s" by (auto simp: substr_def)
  moreover have "m_pos r \<le> ?q" by (rule read_while_loop_ge)
  moreover have "?e \<le> length ?s" using \<open>?q < length ?s\<close> by (simp add: read_while_loop_le)
  ultimately show ?thesis using r' by simp
qed

subsection \<open>Printing integers\<close>

text \<open>
  What \<open>operator<<\<close> on a stream and \<open>std::to_string\<close> produce for an integer:
  the decimal digits, after a minus sign when the value is negative.
\<close>

function show_nat :: "nat \<Rightarrow> string" where
  "show_nat n =
     (if n < 10 then [char_of (48 + n)]
      else show_nat (n div 10) @ [char_of (48 + n mod 10)])"
  by pat_completeness auto
termination
  by (relation "measure (\<lambda>n. n)") auto

declare show_nat.simps [simp del]

definition show_int :: "int \<Rightarrow> string" where
  "show_int i = (if i < 0 then CHR ''-'' # show_nat (nat (- i)) else show_nat (nat i))"

subsection \<open>UCI options\<close>

text \<open>
  \<open>OptionValue\<close> is \<open>std::variant<std::monostate, std::int64_t, std::string, bool>\<close>;
  \<open>index\<close> is the position of the active alternative, and \<open>OptionType\<close> is the
  enum in the same order.
\<close>

datatype OptionValue =
    V_monostate
  | V_int64 int
  | V_string string
  | V_bool bool

datatype OptionType = Button | Spin | String_type | Check

fun index :: "OptionValue \<Rightarrow> nat" where
  "index V_monostate = 0"
| "index (V_int64 i) = 1"
| "index (V_string s) = 2"
| "index (V_bool b) = 3"

text \<open>\<open>static_cast<OptionType>(current.index())\<close>.\<close>

fun OptionType_of_index :: "nat \<Rightarrow> OptionType" where
  "OptionType_of_index n =
     (if n = 0 then Button else if n = 1 then Spin else if n = 2 then String_type else Check)"

text \<open>\<open>std::get<T>\<close> throws \<open>std::bad_variant_access\<close> on another alternative.\<close>

fun get_int64 :: "OptionValue \<Rightarrow> error + int" where
  "get_int64 (V_int64 i) = Inr i"
| "get_int64 v = Inl BadVariantAccess"

fun get_string :: "OptionValue \<Rightarrow> error + string" where
  "get_string (V_string s) = Inr s"
| "get_string v = Inl BadVariantAccess"

fun get_bool :: "OptionValue \<Rightarrow> error + bool" where
  "get_bool (V_bool b) = Inr b"
| "get_bool v = Inl BadVariantAccess"

text \<open>
  The struct \<open>Option\<close>. The change handler is a \<open>std::function\<close> with side effects
  on the engine: here it transforms the engine's state \<open>'u\<close>, or throws. The handlers
  that the engine passes to the \<open>register_*_option\<close> functions are taken not to throw,
  so they are functions on \<open>'u\<close>; the lambdas that wrap them can throw, as in the code.
\<close>

record 'u uci_Option =
  current :: OptionValue
  change_handler :: "OptionValue \<Rightarrow> 'u \<Rightarrow> error + 'u"
  default_value :: OptionValue
  opt_min :: int
  opt_max :: int

definition option_type :: "'u uci_Option \<Rightarrow> OptionType" where
  "option_type opt = OptionType_of_index (index (current opt))"

text \<open>
  The process-wide \<open>std::map<std::string, Option> s_options\<close>, as an association list
  in the order of the keys (the order in which the map is iterated), next to the state of
  the engine on which the handlers act.
\<close>

record 'u registry =
  s_options :: "(string \<times> 'u uci_Option) list"
  engine :: 'u

text \<open>\<open>s_options[name] = opt\<close>: insert at the key's place, or replace.\<close>

fun map_assign :: "string \<Rightarrow> 'v \<Rightarrow> (string \<times> 'v) list \<Rightarrow> (string \<times> 'v) list" where
  "map_assign k v [] = [(k, v)]"
| "map_assign k v ((k', v') # xs) =
     (if k = k' then (k, v) # xs
      else if k < k' then (k, v) # (k', v') # xs
      else (k', v') # map_assign k v xs)"

definition get_check_option :: "string \<Rightarrow> 'u registry \<Rightarrow> error + bool" where
  "get_check_option name st =
     (case map_of (s_options st) name of
        None \<Rightarrow> Inl (InputError (''Option '' @ name @ '' not found.''))
      | Some opt \<Rightarrow>
          (case get_bool (current opt) of
             Inl e \<Rightarrow> Inl (InputError ''Invalid option type.'')
           | Inr b \<Rightarrow> Inr b))"

definition get_spin_option :: "string \<Rightarrow> 'u registry \<Rightarrow> error + int" where
  "get_spin_option name st =
     (case map_of (s_options st) name of
        None \<Rightarrow> Inl (InputError (''Option '' @ name @ '' not found.''))
      | Some opt \<Rightarrow>
          (case get_int64 (current opt) of
             Inl e \<Rightarrow> Inl (InputError ''Invalid option type.'')
           | Inr i \<Rightarrow> Inr i))"

definition get_string_option :: "string \<Rightarrow> 'u registry \<Rightarrow> error + string" where
  "get_string_option name st =
     (case map_of (s_options st) name of
        None \<Rightarrow> Inl (InputError (''Option '' @ name @ '' not found.''))
      | Some opt \<Rightarrow>
          (case get_string (current opt) of
             Inl e \<Rightarrow> Inl (InputError ''Invalid option type.'')
           | Inr s \<Rightarrow> Inr s))"

text \<open>
  \<open>set_option\<close> returns what it throws, or \<open>Inr ()\<close>, together with the registry it
  leaves behind: \<open>opt.current = value\<close> is done before the handler runs, so a handler
  that throws leaves the new value in place.
\<close>

definition set_option_uci ::
  "string \<Rightarrow> OptionValue \<Rightarrow> 'u registry \<Rightarrow> (error + unit) \<times> 'u registry" where
  "set_option_uci name val st =
     (case map_of (s_options st) name of
        None \<Rightarrow> (Inl (OutOfRange ''map::at''), st)
      | Some opt \<Rightarrow>
          if index (current opt) \<noteq> index val
          then (Inl (InvalidArgument ''Value type doesn't match the option's type.''), st)
          else
            (case (if OptionType_of_index (index (current opt)) = Spin
                   then (case get_int64 val of
                           Inl e \<Rightarrow> Inl e
                         | Inr value_as_int \<Rightarrow>
                             if value_as_int > opt_max opt
                             then Inl (InputError (''Maximum value for option '' @ name @ '' is ''
                                                   @ show_int (opt_max opt) @ ''.''))
                             else if value_as_int < opt_min opt
                             then Inl (InputError (''Minimum value for option '' @ name @ '' is ''
                                                   @ show_int (opt_min opt) @ ''.''))
                             else Inr ())
                   else Inr ()) of
               Inl e \<Rightarrow> (Inl e, st)
             | Inr u \<Rightarrow>
                 let st' = st\<lparr>s_options := AList.update name (opt\<lparr>current := val\<rparr>) (s_options st)\<rparr>
                 in (case change_handler opt val (engine st') of
                       Inl e \<Rightarrow> (Inl e, st')
                     | Inr e' \<Rightarrow> (Inr (), st'\<lparr>engine := e'\<rparr>))))"

text \<open>The lambdas that the four \<open>register_*_option\<close> functions store as change handler.\<close>

definition button_handler :: "('u \<Rightarrow> 'u) \<Rightarrow> OptionValue \<Rightarrow> 'u \<Rightarrow> error + 'u" where
  "button_handler trigger_handler v e = Inr (trigger_handler e)"

text \<open>
  The check option's lambda is \<open>change_handler(std::get<std::int64_t>(v))\<close>: it reads the
  variant as an integer, and the integer converts to \<open>bool\<close> as "not zero".
\<close>

definition check_handler :: "(bool \<Rightarrow> 'u \<Rightarrow> 'u) \<Rightarrow> OptionValue \<Rightarrow> 'u \<Rightarrow> error + 'u" where
  "check_handler handler v e =
     (case get_int64 v of Inl err \<Rightarrow> Inl err | Inr i \<Rightarrow> Inr (handler (i \<noteq> 0) e))"

definition spin_handler :: "(int \<Rightarrow> 'u \<Rightarrow> 'u) \<Rightarrow> OptionValue \<Rightarrow> 'u \<Rightarrow> error + 'u" where
  "spin_handler handler v e =
     (case get_int64 v of Inl err \<Rightarrow> Inl err | Inr i \<Rightarrow> Inr (handler i e))"

definition string_handler :: "(string \<Rightarrow> 'u \<Rightarrow> 'u) \<Rightarrow> OptionValue \<Rightarrow> 'u \<Rightarrow> error + 'u" where
  "string_handler handler v e =
     (case get_string v of Inl err \<Rightarrow> Inl err | Inr s \<Rightarrow> Inr (handler s e))"

text \<open>
  The members that an aggregate initialiser leaves out are value-initialised: the
  default value is then \<open>std::monostate\<close>, and \<open>min\<close> and \<open>max\<close> are 0.
\<close>

definition register_button_option :: "string \<Rightarrow> ('u \<Rightarrow> 'u) \<Rightarrow> 'u registry \<Rightarrow> 'u registry" where
  "register_button_option name trigger_handler st =
     st\<lparr>s_options := map_assign name
          \<lparr>current = V_monostate, change_handler = button_handler trigger_handler,
           default_value = V_monostate, opt_min = 0, opt_max = 0\<rparr> (s_options st)\<rparr>"

definition register_check_option ::
  "string \<Rightarrow> bool \<Rightarrow> (bool \<Rightarrow> 'u \<Rightarrow> 'u) \<Rightarrow> 'u registry \<Rightarrow> 'u registry" where
  "register_check_option name default_val handler st =
     st\<lparr>s_options := map_assign name
          \<lparr>current = V_bool default_val, change_handler = check_handler handler,
           default_value = V_bool default_val, opt_min = 0, opt_max = 0\<rparr> (s_options st)\<rparr>"

definition register_spin_option ::
  "string \<Rightarrow> int \<Rightarrow> int \<Rightarrow> int \<Rightarrow> (int \<Rightarrow> 'u \<Rightarrow> 'u) \<Rightarrow> 'u registry \<Rightarrow> 'u registry" where
  "register_spin_option name default_val mn mx handler st =
     st\<lparr>s_options := map_assign name
          \<lparr>current = V_int64 default_val, change_handler = spin_handler handler,
           default_value = V_int64 default_val, opt_min = mn, opt_max = mx\<rparr> (s_options st)\<rparr>"

definition register_string_option ::
  "string \<Rightarrow> string \<Rightarrow> (string \<Rightarrow> 'u \<Rightarrow> 'u) \<Rightarrow> 'u registry \<Rightarrow> 'u registry" where
  "register_string_option name default_val handler st =
     st\<lparr>s_options := map_assign name
          \<lparr>current = V_string default_val, change_handler = string_handler handler,
           default_value = V_string default_val, opt_min = 0, opt_max = 0\<rparr> (s_options st)\<rparr>"

record OptionInfo =
  info_current_value :: OptionValue
  info_name :: string
  info_type :: OptionType
  info_default_value :: OptionValue
  info_min :: OptionValue
  info_max :: OptionValue

definition get_all_options :: "'u registry \<Rightarrow> OptionInfo list" where
  "get_all_options st =
     map (\<lambda>(name, opt).
            \<lparr>info_current_value = current opt, info_name = name, info_type = option_type opt,
             info_default_value = default_value opt,
             info_min = V_int64 (opt_min opt), info_max = V_int64 (opt_max opt)\<rparr>)
         (s_options st)"

text \<open>\<open>operator<<(std::ostream&, const OptionType&)\<close>.\<close>

fun show_OptionType :: "OptionType \<Rightarrow> string" where
  "show_OptionType Spin = ''spin''"
| "show_OptionType String_type = ''string''"
| "show_OptionType Check = ''check''"
| "show_OptionType t = ''unknown''"

subsection \<open>The \<open>uci\<close> command\<close>

text \<open>
  What the handler of \<open>register_uci\<close> writes to the standard output for one option, and
  for the whole command. A \<open>std::get\<close> that throws ends the handler.
\<close>

definition uci_option_line :: "OptionInfo \<Rightarrow> error + string" where
  "uci_option_line opt =
     (let head = ''option '' @ info_name opt @ '' type '' @ show_OptionType (info_type opt)
      in case info_type opt of
           Spin \<Rightarrow>
             (case get_int64 (info_default_value opt) of
                Inl e \<Rightarrow> Inl e
              | Inr d \<Rightarrow>
                  (case get_int64 (info_min opt) of
                     Inl e \<Rightarrow> Inl e
                   | Inr mn \<Rightarrow>
                       (case get_int64 (info_max opt) of
                          Inl e \<Rightarrow> Inl e
                        | Inr mx \<Rightarrow>
                            Inr (head @ '' default '' @ show_int d @ '' min '' @ show_int mn
                                 @ '' max '' @ show_int mx @ [CHR 0x0A]))))
         | String_type \<Rightarrow>
             (case get_string (info_default_value opt) of
                Inl e \<Rightarrow> Inl e
              | Inr d \<Rightarrow> Inr (head @ '' default '' @ d @ [CHR 0x0A]))
         | Check \<Rightarrow>
             (case get_bool (info_default_value opt) of
                Inl e \<Rightarrow> Inl e
              | Inr d \<Rightarrow> Inr (head @ '' default '' @ (if d then ''true'' else ''false'')
                              @ [CHR 0x0A]))
         | Button \<Rightarrow> Inr (head @ [CHR 0x0A]))"

fun uci_option_lines :: "OptionInfo list \<Rightarrow> error + string" where
  "uci_option_lines [] = Inr []"
| "uci_option_lines (opt # opts) =
     (case uci_option_line opt of
        Inl e \<Rightarrow> Inl e
      | Inr l \<Rightarrow> (case uci_option_lines opts of Inl e \<Rightarrow> Inl e | Inr ls \<Rightarrow> Inr (l @ ls)))"

definition uci_handler :: "string \<Rightarrow> string \<Rightarrow> 'u registry \<Rightarrow> error + string" where
  "uci_handler engine_name author_name st =
     (let id_name = (if engine_name \<noteq> [] then ''id name '' @ engine_name @ [CHR 0x0A]
                     else ''id name Unnamed Engine'' @ [CHR 0x0A]);
          id_author = (if author_name \<noteq> [] then ''id author '' @ author_name @ [CHR 0x0A]
                       else [])
      in case uci_option_lines (get_all_options st) of
           Inl e \<Rightarrow> Inl e
         | Inr ls \<Rightarrow> Inr (id_name @ id_author @ ls @ ''uciok'' @ [CHR 0x0A]))"


subsection \<open>The \<open>go\<close> command\<close>

record GoArgs =
  depth :: "int option"
  w_time :: "int option"
  w_inc :: "int option"
  b_time :: "int option"
  b_inc :: "int option"
  move_time :: "int option"
  nodes :: "int option"
  infinite_flag :: bool

text \<open>\<open>GoArgs go_args {}\<close>: every limit absent, \<open>infinite = true\<close>.\<close>

definition new_GoArgs :: GoArgs where
  "new_GoArgs =
     \<lparr>depth = None, w_time = None, w_inc = None, b_time = None, b_inc = None,
      move_time = None, nodes = None, infinite_flag = True\<rparr>"

text \<open>
  \<open>depth\<close> is a \<open>std::optional<int>\<close> assigned from the \<open>std::int64_t\<close> that
  \<open>read_int\<close> returns: the conversion keeps the low 32 bits, read as two's complement.
\<close>

definition int64_to_int :: "int \<Rightarrow> int" where
  "int64_to_int v = (v + 2147483648) mod 4294967296 - 2147483648"

text \<open>
  The chain \<open>if (word == "wtime") ... else throw\<close> of the loop's body: the reader and
  the limits after it, or the exception.
\<close>

definition go_key :: "string \<Rightarrow> ArgReader \<Rightarrow> GoArgs \<Rightarrow> error + ArgReader \<times> GoArgs" where
  "go_key word reader go_args =
     (if word = ''wtime'' then
        (case read_int reader of
           (Inl e, r) \<Rightarrow> Inl e | (Inr n, r) \<Rightarrow> Inr (r, go_args\<lparr>w_time := Some n\<rparr>))
      else if word = ''winc'' then
        (case read_int reader of
           (Inl e, r) \<Rightarrow> Inl e | (Inr n, r) \<Rightarrow> Inr (r, go_args\<lparr>w_inc := Some n\<rparr>))
      else if word = ''btime'' then
        (case read_int reader of
           (Inl e, r) \<Rightarrow> Inl e | (Inr n, r) \<Rightarrow> Inr (r, go_args\<lparr>b_time := Some n\<rparr>))
      else if word = ''binc'' then
        (case read_int reader of
           (Inl e, r) \<Rightarrow> Inl e | (Inr n, r) \<Rightarrow> Inr (r, go_args\<lparr>b_inc := Some n\<rparr>))
      else if word = ''nodes'' then
        (case read_int reader of
           (Inl e, r) \<Rightarrow> Inl e | (Inr n, r) \<Rightarrow> Inr (r, go_args\<lparr>nodes := Some n\<rparr>))
      else if word = ''depth'' then
        (case read_int reader of
           (Inl e, r) \<Rightarrow> Inl e
         | (Inr n, r) \<Rightarrow> Inr (r, go_args\<lparr>depth := Some (int64_to_int n)\<rparr>))
      else if word = ''movetime'' then
        (case read_int reader of
           (Inl e, r) \<Rightarrow> Inl e | (Inr n, r) \<Rightarrow> Inr (r, go_args\<lparr>move_time := Some n\<rparr>))
      else Inl (InputError (''Unexpected argument for go: '' @ word)))"

text \<open>
  The loop \<open>while (!word.empty())\<close>. It need not end, so its result is an option:
  \<open>None\<close> when the loop runs forever, \<open>Some (Inl e)\<close> when it throws \<open>e\<close>,
  \<open>Some (Inr go_args)\<close> when it ends. The \<open>continue\<close> of the \<open>infinite\<close> branch goes
  back to the loop's test with the same word, reader and limits.
\<close>

partial_function (option) go_loop ::
  "string \<Rightarrow> ArgReader \<Rightarrow> GoArgs \<Rightarrow> (error + GoArgs) option" where
  "go_loop word reader go_args =
     (if word = [] then Some (Inr go_args)
      else if word = ''infinite'' then
        (if \<not> infinite_flag go_args
         then Some (Inl (InputError ''Unexpected infinite to go when limits were specified.''))
         else go_loop word reader go_args)
      else
        (case go_key word reader (go_args\<lparr>infinite_flag := False\<rparr>) of
           Inl e \<Rightarrow> Some (Inl e)
         | Inr (reader', go_args') \<Rightarrow>
             (case read_word reader' of
                (word', reader'') \<Rightarrow> go_loop word' reader'' go_args')))"

declare go_loop.simps [code]

text \<open>
  The handler that \<open>register_go\<close> installs, on the command's argument text: the limits
  that it passes to the engine's handler.
\<close>

definition go_handler :: "string \<Rightarrow> (error + GoArgs) option" where
  "go_handler args =
     (case read_word (new_ArgReader args) of
        (word, reader) \<Rightarrow> go_loop word reader new_GoArgs)"

subsection \<open>The \<open>position\<close> command\<close>

text \<open>
  \<open>PositionArgs::fen\<close> is a \<open>std::string_view\<close>: it does not own its characters.
  \<open>View s\<close> is a view of characters that are alive, such as those of a string
  literal. \<open>Dangling s\<close> is a view of the buffer of a \<open>std::string\<close> that has been
  destroyed, where \<open>s\<close> is the text that the buffer held: reading through it has
  undefined behaviour. The moves are \<open>std::string\<close>s, which own their text.
\<close>

datatype string_view = View string | Dangling string

record PositionArgs =
  fen :: string_view
  moves :: "string list"


text \<open>
  The loop \<open>while (!reader.finished())\<close> of the \<open>fen\<close> branch: every word that is
  read goes to the stream followed by one space. The loop stops at the end of the text or
  when what remains, after the whitespace, starts with \<open>moves\<close>.
\<close>

function fen_loop :: "ArgReader \<Rightarrow> string \<Rightarrow> string \<times> ArgReader" where
  "fen_loop reader fen_stream =
     (if finished reader then (fen_stream, reader)
      else
        let reader1 = skip_whitespace reader;
            remainder = peek_remainder reader1
        in if length remainder \<ge> 5 \<and> substr remainder 0 5 = ''moves''
           then (fen_stream, reader1)
           else (case read_word reader1 of
                   (word, reader2) \<Rightarrow> fen_loop reader2 (fen_stream @ word @ '' '')))"
  by pat_completeness auto
termination
proof (relation "measure (\<lambda>(reader, fen_stream). length (m_arg_str reader) - m_pos reader)",
    goal_cases)
  case 1
  show ?case by simp
next
  case (2 reader fen_stream reader1 remainder word reader2)
  then have "m_pos reader < length (m_arg_str reader)"
    and "read_word (skip_whitespace reader) = (word, reader2)"
    by (simp_all add: finished_def)
  from read_word_progress [OF this] show ?case
    by simp arith
qed

declare fen_loop.simps [simp del]

text \<open>The loop \<open>while (!word.empty())\<close> that collects the moves.\<close>

function moves_loop :: "string \<Rightarrow> ArgReader \<Rightarrow> string list \<Rightarrow> string list \<times> ArgReader" where
  "moves_loop word reader mvs =
     (if word \<noteq> [] then
        (case read_word reader of
           (word', reader') \<Rightarrow> moves_loop word' reader' (mvs @ [word]))
      else (mvs, reader))"
  by pat_completeness auto
termination
proof (relation "measure (\<lambda>(word, reader, mvs).
          if word = [] then 0 else Suc (length (m_arg_str reader) - m_pos reader))",
    goal_cases)
  case 1
  show ?case by simp
next
  case (2 word reader mvs word' reader')
  then have rw: "read_word reader = (word', reader')" by simp
  show ?case
  proof (cases "word' = []")
    case True
    with 2 show ?thesis by simp
  next
    case False
    from read_word_nonempty [OF rw False] 2 False show ?thesis
      by simp arith
  qed
qed

declare moves_loop.simps [simp del]

text \<open>
  The handler that \<open>register_position\<close> installs, on the command's argument text: the
  \<open>PositionArgs\<close> that it passes to the engine's handler, or the exception. In the
  \<open>startpos\<close> branch \<open>args.fen\<close> views a string literal. In the \<open>fen\<close> branch
  it is assigned from \<open>fen_stream.str()\<close>, a temporary \<open>std::string\<close> that is
  destroyed at the end of the assignment, before \<open>handler(args)\<close> is called.
\<close>

definition position_handler :: "string \<Rightarrow> error + PositionArgs" where
  "position_handler args =
     (case read_word (new_ArgReader args) of
        (word, reader) \<Rightarrow>
          (case (if word = ''startpos''
                 then Inr (View ''rnbqkbnr/pppppppp/8/8/8/8/PPPPPPPP/RNBQKBNR w KQkq - 0 1'',
                           reader)
                 else if word = ''fen''
                 then (case fen_loop reader [] of
                         (fen_stream, reader') \<Rightarrow> Inr (Dangling fen_stream, reader'))
                 else if word = []
                 then Inl (InputError ''Expected a position specifier (fen or startpos)'')
                 else Inl (InputError (''Unexpected argument to position: '' @ word))) of
             Inl e \<Rightarrow> Inl e
           | Inr (fen_view, reader1) \<Rightarrow>
               (case read_word reader1 of
                  (word1, reader2) \<Rightarrow>
                    if word1 \<noteq> [] then
                      (if word1 \<noteq> ''moves''
                       then Inl (InputError (''Unexpected argument to position: '' @ word1))
                       else (case read_word reader2 of
                               (word2, reader3) \<Rightarrow>
                                 Inr \<lparr>fen = fen_view,
                                      moves = fst (moves_loop word2 reader3 [])\<rparr>))
                    else Inr \<lparr>fen = fen_view, moves = []\<rparr>)))"


subsection \<open>Reporting: \<open>info::Score\<close>\<close>

text \<open>
  The fields of \<open>Score\<close> are of type \<open>int\<close> (32 bits, signed). An operation whose
  result leaves the range has undefined behaviour in C++: it is \<open>None\<close> here, and so
  is everything computed from it.
\<close>

definition INT_MAX :: int where
  "INT_MAX = 2147483647"

definition INT_MIN :: int where
  "INT_MIN = - 2147483648"

definition int_result :: "int \<Rightarrow> int option" where
  "int_result v = (if INT_MIN \<le> v \<and> v \<le> INT_MAX then Some v else None)"

record Score =
  score :: int
  allow_mate_scores :: bool
  mate_score :: int
  mate_threshold :: int

text \<open>The constructor \<open>Score(int score)\<close>; the two other fields are zero-initialised.\<close>

definition new_Score :: "int \<Rightarrow> Score" where
  "new_Score sc =
     \<lparr>score = sc, allow_mate_scores = False, mate_score = 0, mate_threshold = 0\<rparr>"

text \<open>The constructor \<open>Score(int score, int mate, int max_mate_plies)\<close>.\<close>

definition new_Score_mate :: "int \<Rightarrow> int \<Rightarrow> int \<Rightarrow> Score option" where
  "new_Score_mate sc mate max_mate_plies =
     (case int_result \<bar>mate\<bar> of
        None \<Rightarrow> None
      | Some m \<Rightarrow>
          (case int_result (mate - max_mate_plies) of
             None \<Rightarrow> None
           | Some t \<Rightarrow>
               Some \<lparr>score = sc, allow_mate_scores = True, mate_score = m,
                     mate_threshold = t\<rparr>))"

text \<open>
  \<open>operator<<(std::ostream&, const Score&)\<close>: the text written to the stream. The
  \<open>||\<close> does not evaluate \<open>std::abs(s.score)\<close> when mate scores are not allowed, and
  \<open>/\<close> on \<open>int\<close> truncates towards zero.
\<close>

definition show_Score :: "Score \<Rightarrow> string option" where
  "show_Score s =
     (if \<not> allow_mate_scores s then Some (''score cp '' @ show_int (score s))
      else
        (case int_result \<bar>score s\<bar> of
           None \<Rightarrow> None
         | Some a \<Rightarrow>
             if a < mate_threshold s then Some (''score cp '' @ show_int (score s))
             else
               (case int_result (mate_score s - a) of
                  None \<Rightarrow> None
                | Some plies \<Rightarrow>
                    (case int_result (plies + 1) of
                       None \<Rightarrow> None
                     | Some p \<Rightarrow>
                         (let moves = p sdiv 2
                          in case (if score s > 0 then Some moves else int_result (- moves)) of
                               None \<Rightarrow> None
                             | Some m \<Rightarrow> Some (''score mate '' @ show_int m))))))"

subsection \<open>The work thread\<close>

text \<open>
  \<open>WorkThread\<close> with the control state of its thread, which executes \<open>run()\<close>: the
  thread waits on the condition variable, or executes the task body \<open>task_to_run\<close> that
  it took out of \<open>m_task\<close>, or has returned from \<open>run()\<close>. A task is a value of
  type \<open>'t\<close>. The steps are the critical sections that the mutex makes atomic.
\<close>

datatype 't run_state = Waiting | Executing 't | Returned

record 't WorkThread =
  m_task :: "'t option"
  m_kill :: bool
  m_stop :: bool
  run_state :: "'t run_state"

definition new_WorkThread :: "'t WorkThread" where
  "new_WorkThread = \<lparr>m_task = None, m_kill = False, m_stop = False, run_state = Waiting\<rparr>"

definition running :: "'t WorkThread \<Rightarrow> bool" where
  "running w \<longleftrightarrow> m_task w \<noteq> None"

definition submit_task :: "'t \<Rightarrow> 't WorkThread \<Rightarrow> 't WorkThread" where
  "submit_task new_task w = w\<lparr>m_task := Some new_task, m_stop := False\<rparr>"

definition stop_current_task :: "'t WorkThread \<Rightarrow> 't WorkThread" where
  "stop_current_task w = w\<lparr>m_stop := True\<rparr>"

text \<open>
  One step of the thread in \<open>run()\<close>. Waiting, it leaves the wait when \<open>m_task\<close> or
  \<open>m_kill\<close> is set: it returns on \<open>m_kill\<close>, and otherwise moves the task to
  \<open>task_to_run\<close>, sets \<open>m_task = nullptr\<close>, releases the lock and calls the task.
  Executing, the task body returns and the loop starts again.
\<close>

definition run_step :: "'t WorkThread \<Rightarrow> 't WorkThread" where
  "run_step w =
     (case run_state w of
        Waiting \<Rightarrow>
          if m_kill w then w\<lparr>run_state := Returned\<rparr>
          else (case m_task w of
                  None \<Rightarrow> w
                | Some task_to_run \<Rightarrow> w\<lparr>m_task := None, run_state := Executing task_to_run\<rparr>)
      | Executing t \<Rightarrow> w\<lparr>run_state := Waiting\<rparr>
      | Returned \<Rightarrow> w)"

text \<open>
  The global \<open>s_work_thread\<close> is a \<open>std::unique_ptr<WorkThread>\<close>, \<open>None\<close> when
  null, and the functions of the interface act on it.
\<close>

definition awake_work_thread :: "'t WorkThread option \<Rightarrow> 't WorkThread option" where
  "awake_work_thread s_work_thread =
     (case s_work_thread of Some w \<Rightarrow> Some w | None \<Rightarrow> Some new_WorkThread)"

definition stop_work_thread :: "'t WorkThread option \<Rightarrow> 't WorkThread option" where
  "stop_work_thread s_work_thread =
     (case s_work_thread of None \<Rightarrow> None | Some w \<Rightarrow> Some (stop_current_task w))"

definition launch_work_thread :: "'t \<Rightarrow> 't WorkThread option \<Rightarrow> 't WorkThread option" where
  "launch_work_thread task s_work_thread =
     map_option (submit_task task) (stop_work_thread (awake_work_thread s_work_thread))"

definition work_thread_running :: "'t WorkThread option \<Rightarrow> bool" where
  "work_thread_running s_work_thread =
     (case s_work_thread of None \<Rightarrow> False | Some w \<Rightarrow> running w)"

text \<open>
  The states that the program reaches: from the null pointer, by the calls of the main
  thread and the steps of the work thread in any order.
\<close>

inductive reachable :: "'t WorkThread option \<Rightarrow> bool" where
  initial: "reachable None"
| awake: "reachable s \<Longrightarrow> reachable (awake_work_thread s)"
| launch: "reachable s \<Longrightarrow> reachable (launch_work_thread task s)"
| stop: "reachable s \<Longrightarrow> reachable (stop_work_thread s)"
| thread: "reachable s \<Longrightarrow> reachable (map_option run_step s)"

text \<open>A task is installed in the slot, or the thread is executing a task body.\<close>

definition task_installed :: "'t WorkThread option \<Rightarrow> bool" where
  "task_installed s_work_thread =
     (case s_work_thread of None \<Rightarrow> False | Some w \<Rightarrow> m_task w \<noteq> None)"

definition task_executing :: "'t WorkThread option \<Rightarrow> bool" where
  "task_executing s_work_thread =
     (case s_work_thread of
        None \<Rightarrow> False
      | Some w \<Rightarrow> (case run_state w of Executing t \<Rightarrow> True | _ \<Rightarrow> False))"


section \<open>Properties of the option registry\<close>

lemma map_of_map_assign_same: "map_of (map_assign k v xs) k = Some v"
  by (induction xs) auto

lemma map_of_map_assign_other: "k' \<noteq> k \<Longrightarrow> map_of (map_assign k v xs) k' = map_of xs k'"
  by (induction xs) auto

text \<open>
  Setting any check option that \<open>register_check_option\<close> has registered, to any
  Boolean: the new value is stored, then the option's lambda reads the variant with
  \<open>std::get<std::int64_t>\<close> and throws; the engine's handler is not called.
\<close>

lemma set_check_option_registered:
  "set_option_uci name (V_bool b) (register_check_option name d handler st) =
     (Inl BadVariantAccess,
      (register_check_option name d handler st)
        \<lparr>s_options := AList.update name
           \<lparr>current = V_bool b, change_handler = check_handler handler,
            default_value = V_bool d, opt_min = 0, opt_max = 0\<rparr>
           (s_options (register_check_option name d handler st))\<rparr>)"
  by (simp add: set_option_uci_def register_check_option_def map_of_map_assign_same
      check_handler_def)

text \<open>
  Text and button options do not share the defect: their lambdas read the alternative
  that the option holds, the set succeeds and the handler runs once. After a set, the
  getter returns the value that was set, for a check option as well, where the value is
  stored before the lambda throws.
\<close>

lemma set_string_option_registered:
  "set_option_uci name (V_string v) (register_string_option name d handler st) =
     (Inr (),
      (register_string_option name d handler st)
        \<lparr>s_options := AList.update name
           \<lparr>current = V_string v, change_handler = string_handler handler,
            default_value = V_string d, opt_min = 0, opt_max = 0\<rparr>
           (s_options (register_string_option name d handler st)),
         engine := handler v (engine st)\<rparr>)"
  by (simp add: set_option_uci_def register_string_option_def map_of_map_assign_same
      string_handler_def)

lemma set_button_option_registered:
  "set_option_uci name V_monostate (register_button_option name trigger st) =
     (Inr (),
      (register_button_option name trigger st)
        \<lparr>s_options := AList.update name
           \<lparr>current = V_monostate, change_handler = button_handler trigger,
            default_value = V_monostate, opt_min = 0, opt_max = 0\<rparr>
           (s_options (register_button_option name trigger st)),
         engine := trigger (engine st)\<rparr>)"
  by (simp add: set_option_uci_def register_button_option_def map_of_map_assign_same
      button_handler_def)

lemma get_string_option_after_set:
  "get_string_option name (snd (set_option_uci name (V_string v)
      (register_string_option name d handler st))) = Inr v"
  by (simp add: set_string_option_registered get_string_option_def update_conv')

lemma get_check_option_after_set:
  "get_check_option name (snd (set_option_uci name (V_bool b)
      (register_check_option name d handler st))) = Inr b"
  by (simp add: set_check_option_registered get_check_option_def update_conv')

lemma get_spin_option_after_set:
  assumes "mn \<le> v" and "v \<le> mx"
  shows "get_spin_option name (snd (set_option_uci name (V_int64 v)
      (register_spin_option name d mn mx handler st))) = Inr v"
  using assms
  by (simp add: set_option_uci_def register_spin_option_def map_of_map_assign_same
      spin_handler_def get_spin_option_def update_conv')

text \<open>
  C1. The claim: for every registered option and every value of the option's kind (within
  the bounds, for an integer option), \<open>set_option\<close> succeeds, stores the value and calls
  the change handler once with it, for every kind, check options included. The code at a
  check option: with \<open>Ponder\<close> registered as a check option whose handler appends the
  value it receives to a log, \<open>set_option("Ponder", true)\<close> throws
  \<open>std::bad_variant_access\<close> and the log stays empty: the handler was never called,
  although the value has been stored.
\<close>

theorem set_check_option_throws:
  "fst (set_option_uci ''Ponder'' (V_bool True)
          (register_check_option ''Ponder'' False (\<lambda>b log. log @ [b])
             \<lparr>s_options = [], engine = []\<rparr>))
     = Inl BadVariantAccess
   \<and> engine (snd (set_option_uci ''Ponder'' (V_bool True)
          (register_check_option ''Ponder'' False (\<lambda>b log. log @ [b])
             \<lparr>s_options = [], engine = []\<rparr>)))
     = []
   \<and> get_check_option ''Ponder'' (snd (set_option_uci ''Ponder'' (V_bool True)
          (register_check_option ''Ponder'' False (\<lambda>b log. log @ [b])
             \<lparr>s_options = [], engine = []\<rparr>)))
     = Inr True"
  by (simp add: set_option_uci_def register_check_option_def check_handler_def
      get_check_option_def)

text \<open>
  C7. For every option in the registry and every value whose kind is not the kind of the
  option's current value, \<open>set_option\<close> throws \<open>std::invalid_argument\<close> (the type
  mismatch) and returns the registry as it was: the current value is unchanged and the
  change handler has not run, since the engine's state is unchanged as well.
\<close>

theorem set_option_type_mismatch:
  assumes "map_of (s_options st) name = Some opt"
    and "index val \<noteq> index (current opt)"
  shows "set_option_uci name val st
         = (Inl (InvalidArgument ''Value type doesn't match the option's type.''), st)"
  using assms by (auto simp: set_option_uci_def)

text \<open>
  C7 at a concrete input: a text value for the spin option \<open>Hash\<close>.
\<close>

theorem set_option_type_mismatch_witness:
  "set_option_uci ''Hash'' (V_string ''big'')
     (register_spin_option ''Hash'' 32 1 1024 (\<lambda>i log. log @ [i])
        \<lparr>s_options = [], engine = []\<rparr>)
   = (Inl (InvalidArgument ''Value type doesn't match the option's type.''),
      register_spin_option ''Hash'' 32 1 1024 (\<lambda>i log. log @ [i])
        \<lparr>s_options = [], engine = []\<rparr>)"
  by (rule set_option_type_mismatch [where opt = "\<lparr>current = V_int64 32,
        change_handler = spin_handler (\<lambda>i log. log @ [i]), default_value = V_int64 32,
        opt_min = 1, opt_max = 1024\<rparr>"])
    (simp_all add: register_spin_option_def)

text \<open>
  A registry for the examples: the spin option \<open>Hash\<close> with default 32 and bounds
  1 and 1024, whose handler appends the value it receives to a log.
\<close>

definition Hash_registry :: "int list registry" where
  "Hash_registry =
     register_spin_option ''Hash'' 32 1 1024 (\<lambda>i log. log @ [i]) \<lparr>s_options = [], engine = []\<rparr>"

text \<open>
  C6. For every spin option in the registry, with bounds \<open>opt_min\<close> and \<open>opt_max\<close>,
  and every integer \<open>v\<close>: \<open>set_option(name, v)\<close> succeeds if and only if
  \<open>opt_min \<le> v \<le> opt_max\<close>, the bounds included. Above the maximum it throws the
  \<open>InputError\<close> that names the maximum; below the minimum, the one that names the
  minimum; both leave the registry as it was. When it succeeds the value is stored and
  the handler has run once, on that value.
\<close>

theorem set_option_spin_bounds:
  assumes "map_of (s_options st) name = Some opt"
    and "current opt = V_int64 c"
    and "change_handler opt = spin_handler handler"
  shows "(fst (set_option_uci name (V_int64 v) st) = Inr ()) = (opt_min opt \<le> v \<and> v \<le> opt_max opt)
    \<and> (opt_max opt < v \<longrightarrow>
         set_option_uci name (V_int64 v) st
         = (Inl (InputError (''Maximum value for option '' @ name @ '' is ''
                             @ show_int (opt_max opt) @ ''.'')), st))
    \<and> (v \<le> opt_max opt \<and> v < opt_min opt \<longrightarrow>
         set_option_uci name (V_int64 v) st
         = (Inl (InputError (''Minimum value for option '' @ name @ '' is ''
                             @ show_int (opt_min opt) @ ''.'')), st))
    \<and> (opt_min opt \<le> v \<and> v \<le> opt_max opt \<longrightarrow>
         set_option_uci name (V_int64 v) st
         = (Inr (), st\<lparr>s_options := AList.update name (opt\<lparr>current := V_int64 v\<rparr>) (s_options st),
                       engine := handler v (engine st)\<rparr>))"
  using assms by (auto simp: set_option_uci_def spin_handler_def Let_def)

text \<open>
  C6 at the option \<open>Hash\<close>: both bounds are accepted, 1025 and 0 are refused with the
  message of the bound they violate.
\<close>

theorem set_option_spin_bounds_witness:
  "fst (set_option_uci ''Hash'' (V_int64 1) Hash_registry) = Inr ()
   \<and> fst (set_option_uci ''Hash'' (V_int64 1024) Hash_registry) = Inr ()
   \<and> fst (set_option_uci ''Hash'' (V_int64 1025) Hash_registry)
       = Inl (InputError ''Maximum value for option Hash is 1024.'')
   \<and> fst (set_option_uci ''Hash'' (V_int64 0) Hash_registry)
       = Inl (InputError ''Minimum value for option Hash is 1.'')"
proof -
  let ?opt = "\<lparr>current = V_int64 32, change_handler = spin_handler (\<lambda>i log. log @ [i]),
               default_value = V_int64 32, opt_min = 1, opt_max = 1024\<rparr> :: int list uci_Option"
  have reg: "map_of (s_options Hash_registry) ''Hash'' = Some ?opt"
    by (simp add: Hash_registry_def register_spin_option_def)
  have cur: "current ?opt = V_int64 32"
    and han: "change_handler ?opt = spin_handler (\<lambda>i log. log @ [i])"
    by simp_all
  note bounds = set_option_spin_bounds [OF reg cur han]
  have "show_int 1024 = ''1024''" and "show_int 1 = ''1''"
    by code_simp+
  with bounds [of 1] bounds [of 1024] bounds [of 1025] bounds [of 0]
  show ?thesis by simp
qed

section \<open>Properties of the command handlers\<close>

text \<open>
  C2. The claim: the \<open>uci\<close> handler prints, for every registered option, a line
  \<open>option <name> type <kind>\<close> with the kind \<open>button\<close> for a button option. The
  code at a button option: \<open>operator<<\<close> for \<open>OptionType\<close> has no case for
  \<open>Button\<close>, and the line reads \<open>option Clear type unknown\<close>.
\<close>

theorem uci_button_option_type_unknown:
  "uci_handler ''My Engine Name'' ''My Name''
     (register_button_option ''Clear'' (\<lambda>e. e) \<lparr>s_options = [], engine = ()\<rparr>)
   = Inr (''id name My Engine Name'' @ [CHR 0x0A] @ ''id author My Name'' @ [CHR 0x0A]
          @ ''option Clear type unknown'' @ [CHR 0x0A] @ ''uciok'' @ [CHR 0x0A])"
  by (simp add: uci_handler_def register_button_option_def get_all_options_def
      uci_option_line_def option_type_def)

text \<open>
  Whenever the loop of the \<open>go\<close> handler returns, it was not started on the word
  \<open>infinite\<close> with the flag still set: from there the \<open>continue\<close> leads back to the
  same state.
\<close>

lemma go_loop_Some_not_infinite:
  assumes "go_loop word reader go_args = Some y"
  shows "\<not> (word = ''infinite'' \<and> infinite_flag go_args)"
proof (rule go_loop.raw_induct
    [where P = "\<lambda>w r a y. \<not> (w = ''infinite'' \<and> infinite_flag a)", OF _ assms], goal_cases)
  case (1 loop w r a y)
  show ?case
  proof
    assume inf: "w = ''infinite'' \<and> infinite_flag a"
    with "1"(2) have "loop w r a = Some y" by simp
    from "1"(1) [OF this] inf show False by simp
  qed
qed

lemma go_loop_infinite_diverges:
  assumes "infinite_flag go_args"
  shows "go_loop ''infinite'' reader go_args = None"
proof (cases "go_loop ''infinite'' reader go_args")
  case None
  then show ?thesis .
next
  case (Some y)
  from go_loop_Some_not_infinite [OF this] assms show ?thesis by simp
qed

text \<open>On lines without the word \<open>infinite\<close> the loop ends, for instance:\<close>

lemma go_examples:
  "go_handler ''wtime 60000 winc 1000''
   = Some (Inr \<lparr>depth = None, w_time = Some 60000, w_inc = Some 1000, b_time = None,
                b_inc = None, move_time = None, nodes = None, infinite_flag = False\<rparr>)"
  "go_handler [] = Some (Inr new_GoArgs)"
  by code_simp+

text \<open>
  C3. The claim: the word-reading loop of the \<open>go\<close> handler terminates on every argument
  line, and on the line \<open>infinite\<close> it passes on limits with \<open>infinite = true\<close> and
  nothing else. The code on the line \<open>infinite\<close>: the loop never ends, so the handler
  returns nothing and the engine's handler is never called.
\<close>

theorem go_infinite_never_returns: "go_handler ''infinite'' = None"
proof -
  have "read_word (new_ArgReader ''infinite'')
        = (''infinite'', \<lparr>m_arg_str = ''infinite'', m_pos = 8\<rparr>)"
    by code_simp
  then show ?thesis
    by (simp add: go_handler_def go_loop_infinite_diverges new_GoArgs_def)
qed

text \<open>
  With \<open>startpos\<close> the handler passes on a view of the literal and the moves:
\<close>

lemma position_startpos_example:
  "position_handler ''startpos moves e2e4 e7e5''
   = Inr \<lparr>fen = View ''rnbqkbnr/pppppppp/8/8/8/8/PPPPPPPP/RNBQKBNR w KQkq - 0 1'',
          moves = [''e2e4'', ''e7e5'']\<rparr>"
  by code_simp

text \<open>
  C4. The claim: the line \<open>position fen 8/8/8/8/8/8/8/8 w - - 0 1 moves\<close> produces a
  position descriptor whose fen text is exactly \<open>8/8/8/8/8/8/8/8 w - - 0 1\<close> and an
  empty move list. The code on that line: the move list is empty, but the fen that the
  engine's handler receives is a view of a destroyed string, with no text that can be
  read; and the text that was written to that string ends with a space, since every
  word goes to the stream followed by one.
\<close>

theorem position_fen_dangling_view:
  "position_handler ''fen 8/8/8/8/8/8/8/8 w - - 0 1 moves''
   = Inr \<lparr>fen = Dangling ''8/8/8/8/8/8/8/8 w - - 0 1 '', moves = []\<rparr>"
  by code_simp

section \<open>Properties of the work thread\<close>

text \<open>
  What \<open>work_thread_running()\<close> reports is that a task is installed in the slot and
  not yet taken by the thread.
\<close>

lemma work_thread_running_iff_installed:
  "work_thread_running s \<longleftrightarrow> task_installed s"
  by (simp add: work_thread_running_def task_installed_def running_def split: option.splits)

text \<open>
  C5. The claim: in every reachable state, \<open>work_thread_running()\<close> is true if and only
  if a task is installed or executing, and so it is true while the thread executes a task
  body. The code after \<open>launch_work_thread(think)\<close> and the thread's next step: the thread
  has emptied \<open>m_task\<close> and executes the task, and \<open>work_thread_running()\<close> is false.
\<close>

theorem running_false_while_executing:
  "reachable (map_option run_step (launch_work_thread ''think'' None))
   \<and> task_executing (map_option run_step (launch_work_thread ''think'' None))
   \<and> \<not> work_thread_running (map_option run_step (launch_work_thread ''think'' None))"
proof -
  have "reachable (map_option run_step (launch_work_thread ''think'' None))"
    by (intro reachable.thread reachable.launch reachable.initial)
  moreover have "task_executing (map_option run_step (launch_work_thread ''think'' None))"
    by (simp add: task_executing_def launch_work_thread_def awake_work_thread_def
        stop_work_thread_def submit_task_def stop_current_task_def new_WorkThread_def
        run_step_def)
  moreover have "\<not> work_thread_running (map_option run_step (launch_work_thread ''think'' None))"
    by (simp add: work_thread_running_def running_def launch_work_thread_def
        awake_work_thread_def stop_work_thread_def submit_task_def stop_current_task_def
        new_WorkThread_def run_step_def)
  ultimately show ?thesis by simp
qed

section \<open>Properties of the argument reader\<close>

text \<open>
  The outcomes of \<open>try_read_int\<close>: a value; or no value, with the reader exactly as
  it was before the call; or the \<open>std::out_of_range\<close> of \<open>std::stoll\<close>.
\<close>

lemma stoll_errors: "stoll w = Inl e \<Longrightarrow> e = InvalidArgument ''stoll'' \<or> e = OutOfRange ''stoll''"
  by (auto simp: stoll_def Let_def split: prod.splits if_splits)

lemma try_read_int_outcomes:
  "(\<exists>n r'. try_read_int r = (Inr (Some n), r'))
   \<or> try_read_int r = (Inr None, r)
   \<or> (\<exists>r'. try_read_int r = (Inl (OutOfRange ''stoll''), r'))"
proof -
  obtain w r2 where rw: "read_word (skip_whitespace r) = (w, r2)"
    by (cases "read_word (skip_whitespace r)")
  then have r2: "m_arg_str r2 = m_arg_str r"
    by (auto simp: read_word_eq skip_whitespace_eq Let_def)
  show ?thesis
  proof (cases "stoll w")
    case (Inr n)
    with rw show ?thesis by (simp add: try_read_int_def)
  next
    case (Inl e)
    from stoll_errors [OF this] show ?thesis
    proof
      assume "e = InvalidArgument ''stoll''"
      moreover have "r2\<lparr>m_pos := m_pos r\<rparr> = r" using r2 by simp
      ultimately show ?thesis using rw Inl by (simp add: try_read_int_def)
    next
      assume "e = OutOfRange ''stoll''"
      with rw Inl show ?thesis by (simp add: try_read_int_def)
    qed
  qed
qed

lemma try_read_int_examples:
  "try_read_int (new_ArgReader ''  42  rest'')
     = (Inr (Some 42), \<lparr>m_arg_str = ''  42  rest'', m_pos = 4\<rparr>)"
  "try_read_int (new_ArgReader ''abc'') = (Inr None, \<lparr>m_arg_str = ''abc'', m_pos = 0\<rparr>)"
  by code_simp+

text \<open>
  C8. The claim: \<open>try_read_int\<close> returns a value, or no value with the cursor where it
  was, and never fails with an error. The code on a numeral that does not fit 64 bits:
  \<open>std::stoll\<close> throws \<open>std::out_of_range\<close>, which \<open>try_read_int\<close> does not catch,
  and the cursor stays after the word, at position 20.
\<close>

theorem try_read_int_out_of_range:
  "try_read_int (new_ArgReader ''99999999999999999999'')
   = (Inl (OutOfRange ''stoll''), \<lparr>m_arg_str = ''99999999999999999999'', m_pos = 20\<rparr>)"
  by code_simp


section \<open>Properties of the score fragment\<close>

text \<open>
  The score rule in the words of the specification, for a raw score \<open>s\<close>, a mate
  constant \<open>m\<close> and a threshold \<open>t\<close>, with mate encoding enabled: the plies are
  \<open>m - |s|\<close>, with the mate constant as it is given.
\<close>

definition Score_text_as_claimed :: "int \<Rightarrow> int \<Rightarrow> int \<Rightarrow> string" where
  "Score_text_as_claimed s m t =
     (if \<bar>s\<bar> < m - t then ''score cp '' @ show_int s
      else let plies = m - \<bar>s\<bar>; moves = (plies + 1) sdiv 2
           in ''score mate '' @ show_int (if 0 < s then moves else - moves))"

text \<open>
  With mate encoding disabled the score is written in centipawns. With a mate constant
  that is not negative, the code follows the rule as it is claimed, whenever its 32-bit
  arithmetic is defined: the inputs, the threshold \<open>m - t\<close> and, in the mate branch,
  \<open>plies + 1\<close> are within the range of \<open>int\<close>.
\<close>

lemma show_Score_cp_only: "show_Score (new_Score s) = Some (''score cp '' @ show_int s)"
  by (simp add: show_Score_def new_Score_def)

lemma show_Score_as_claimed:
  assumes m: "0 \<le> m" "m \<le> INT_MAX"
    and s: "\<bar>s\<bar> \<le> INT_MAX"
    and t: "INT_MIN \<le> m - t" "m - t \<le> INT_MAX"
    and p: "\<bar>s\<bar> < m - t \<or> m - \<bar>s\<bar> < INT_MAX"
  shows "Option.bind (new_Score_mate s m t) show_Score = Some (Score_text_as_claimed s m t)"
proof -
  have am: "\<bar>m\<bar> = m" using m by simp
  have a: "int_result m = Some m" "int_result \<bar>s\<bar> = Some \<bar>s\<bar>"
    "int_result (m - t) = Some (m - t)"
    using m s t unfolding int_result_def INT_MIN_def INT_MAX_def by simp_all
  show ?thesis
  proof (cases "\<bar>s\<bar> < m - t")
    case True
    then show ?thesis
      by (simp add: new_Score_mate_def show_Score_def Score_text_as_claimed_def am a
          del: abs_of_nonneg abs_of_nonpos)
  next
    case False
    let ?p = "m - \<bar>s\<bar> + 1"
    from False p have lt: "m - \<bar>s\<bar> < INT_MAX" by simp
    have r: "INT_MIN \<le> m - \<bar>s\<bar>" "m - \<bar>s\<bar> \<le> INT_MAX" "INT_MIN \<le> ?p" "?p \<le> INT_MAX"
      "\<bar>?p\<bar> \<le> INT_MAX"
      using m s lt unfolding INT_MIN_def INT_MAX_def by linarith+
    then have b: "int_result (m - \<bar>s\<bar>) = Some (m - \<bar>s\<bar>)" "int_result ?p = Some ?p"
      by (simp_all add: int_result_def)
    have "?p sdiv 2 \<in> {- \<bar>?p\<bar>..\<bar>?p\<bar>}" by (rule sdiv_int_range)
    with r(5) have c: "int_result (- (?p sdiv 2)) = Some (- (?p sdiv 2))"
      by (simp add: int_result_def INT_MIN_def INT_MAX_def)
    from False show ?thesis
      by (simp add: new_Score_mate_def show_Score_def Score_text_as_claimed_def am a b c Let_def
          del: abs_of_nonneg abs_of_nonpos)
  qed
qed

text \<open>
  The examples: \<open>Score(250)\<close> is written as \<open>score cp 250\<close> and
  \<open>Score(990, 1000, 10)\<close> as \<open>score mate 5\<close>; with the largest mate constant and a
  score below the threshold nothing overflows.
\<close>

lemma show_Score_examples:
  "show_Score (new_Score 250) = Some ''score cp 250''"
  "Option.bind (new_Score_mate 990 1000 10) show_Score = Some ''score mate 5''"
  "Option.bind (new_Score_mate 5 2147483647 0) show_Score = Some ''score cp 5''"
  by code_simp+

text \<open>
  C9. The claim: for every raw score \<open>s\<close>, mate constant \<open>m\<close> and threshold \<open>t\<close>,
  the score is written as \<open>score cp s\<close> when \<open>|s| < m - t\<close>, and otherwise as
  \<open>score mate\<close> with \<open>plies = m - |s|\<close> and \<open>moves = (plies + 1) / 2\<close>. The code
  at a negative mate constant: the constructor takes \<open>std::abs(mate)\<close> for the mate
  score but the mate constant as given for the threshold, so \<open>Score(5, -1000, 10)\<close> has
  the threshold \<open>-1010\<close> and is written as \<open>score mate 498\<close>, from the plies
  \<open>1000 - 5\<close>. The claimed rule gives \<open>score mate -502\<close> there, and the same score
  with the mate constant 1000 is written as \<open>score cp 5\<close>.
\<close>

theorem show_Score_negative_mate_constant:
  "Option.bind (new_Score_mate 5 (- 1000) 10) show_Score = Some ''score mate 498''
   \<and> Score_text_as_claimed 5 (- 1000) 10 = ''score mate -502''
   \<and> Option.bind (new_Score_mate 5 1000 10) show_Score = Some ''score cp 5''"
  by code_simp

section \<open>Numerals with trailing characters\<close>

text \<open>
  A word is read whole, up to the next whitespace, and \<open>std::stoll\<close> converts its
  longest numeric prefix: a digit is neither whitespace nor a sign, so the prefix of an
  optional sign and digits is what \<open>stoll\<close> takes, whatever follows in the word.
\<close>

lemma isdigit_not_isspace: "isdigit c \<Longrightarrow> \<not> isspace c"
  by (auto simp: isdigit_def isspace_def less_eq_char_def)

lemma isdigit_not_sign: "isdigit c \<Longrightarrow> c \<noteq> CHR ''-'' \<and> c \<noteq> CHR ''+''"
  by (auto simp: isdigit_def less_eq_char_def)

lemma read_word_append:
  assumes str: "m_arg_str r = pre @ ws @ w @ post"
    and pos: "m_pos r = length pre"
    and ws: "\<forall>c \<in> set ws. isspace c"
    and w: "\<forall>c \<in> set w. \<not> isspace c"
    and post: "post = [] \<or> isspace (hd post)"
    and ne: "w \<noteq> [] \<or> post = []"
  shows "read_word r = (w, r\<lparr>m_pos := length pre + length ws + length w\<rparr>)"
proof -
  have "w @ post = [] \<or> \<not> isspace (hd (w @ post))"
    using w ne by (cases w) auto
  with ws have q: "read_while_loop isspace (pre @ ws @ w @ post) (length pre)
                   = length pre + length ws"
    by (rule read_while_loop_append)
  have "read_while_loop (\<lambda>c. \<not> isspace c) ((pre @ ws) @ w @ post) (length (pre @ ws))
        = length (pre @ ws) + length w"
    using w post by (intro read_while_loop_append) auto
  then have e: "read_until_loop isspace (pre @ ws @ w @ post) (length pre + length ws)
                = length pre + length ws + length w"
    by (simp add: read_until_loop_eq_while)
  have "drop (length pre + length ws) (pre @ ws @ w @ post) = w @ post"
    by (simp add: drop_append)
  then show ?thesis
    by (simp add: read_word_eq str pos q e substr_def Let_def)
qed

lemma stoll_numeric_prefix:
  assumes sign: "sg = [] \<or> sg = ''+'' \<or> sg = ''-''"
    and ds: "ds \<noteq> []" "\<forall>c \<in> set ds. isdigit c"
    and rest: "rest = [] \<or> \<not> isdigit (hd rest)"
    and v: "v = (if sg = ''-'' then - digits_value ds else digits_value ds)"
    and range: "INT64_MIN \<le> v" "v \<le> INT64_MAX"
  shows "stoll (sg @ ds @ rest) = Inr v"
proof -
  obtain d ds' where dsc: "ds = d # ds'" using ds(1) by (cases ds) auto
  with ds(2) have d: "isdigit d" by simp
  have nosp: "dropWhile isspace (sg @ ds @ rest) = sg @ ds @ rest"
    using sign dsc isdigit_not_isspace [OF d] by (auto simp: isspace_def)
  have strip: "strip_sign (sg @ ds @ rest) = (sg = ''-'', ds @ rest)"
    using sign dsc isdigit_not_sign [OF d] by (auto simp: strip_sign_def)
  have "takeWhile isdigit rest = []" using rest by (cases rest) auto
  with ds(2) have tw: "takeWhile isdigit (ds @ rest) = ds"
    by (simp add: takeWhile_append2)
  show ?thesis
  proof (cases "sg = ''-''")
    case True
    with strip have strip': "strip_sign (sg @ ds @ rest) = (True, ds @ rest)" by simp
    from v True have "- digits_value ds = v" by simp
    with range ds(1) show ?thesis
      by (simp add: stoll_def nosp strip' tw Let_def)
  next
    case False
    with strip have strip': "strip_sign (sg @ ds @ rest) = (False, ds @ rest)" by simp
    from v False have "digits_value ds = v" by simp
    with range ds(1) show ?thesis
      by (simp add: stoll_def nosp strip' tw Let_def)
  qed
qed


lemma try_read_int_numeric_prefix:
  assumes str: "m_arg_str r = pre @ ws @ (sg @ ds @ rest) @ post"
    and pos: "m_pos r = length pre"
    and ws: "\<forall>c \<in> set ws. isspace c"
    and sign: "sg = [] \<or> sg = ''+'' \<or> sg = ''-''"
    and ds: "ds \<noteq> []" "\<forall>c \<in> set ds. isdigit c"
    and rest: "rest = [] \<or> \<not> isdigit (hd rest)" "\<forall>c \<in> set rest. \<not> isspace c"
    and post: "post = [] \<or> isspace (hd post)"
    and v: "v = (if sg = ''-'' then - digits_value ds else digits_value ds)"
    and range: "INT64_MIN \<le> v" "v \<le> INT64_MAX"
  shows "try_read_int r
         = (Inr (Some v), r\<lparr>m_pos := length pre + length ws + length (sg @ ds @ rest)\<rparr>)"
proof -
  let ?w = "sg @ ds @ rest"
  have "\<forall>c \<in> set sg. \<not> isspace c"
    using sign by (auto simp: isspace_def)
  moreover have "\<forall>c \<in> set ds. \<not> isspace c"
    using ds(2) by (simp add: isdigit_not_isspace)
  ultimately have w: "\<forall>c \<in> set ?w. \<not> isspace c"
    using rest(2) by auto
  have wne: "?w \<noteq> []" using ds(1) by simp
  have "?w @ post = [] \<or> \<not> isspace (hd (?w @ post))"
    using w wne by (cases ?w) auto
  with ws have "read_while_loop isspace (pre @ ws @ ?w @ post) (length pre)
                = length pre + length ws"
    by (rule read_while_loop_append)
  then have skip: "skip_whitespace r = r\<lparr>m_pos := length pre + length ws\<rparr>"
    by (simp add: skip_whitespace_eq str pos)
  have "read_word (r\<lparr>m_pos := length pre + length ws\<rparr>)
        = (?w, r\<lparr>m_pos := length pre + length ws\<rparr>
                 \<lparr>m_pos := length (pre @ ws) + length ([] :: string) + length ?w\<rparr>)"
    using w post wne by (intro read_word_append) (simp_all add: str)
  then have rw: "read_word (r\<lparr>m_pos := length pre + length ws\<rparr>)
        = (?w, r\<lparr>m_pos := length pre + length ws + length ?w\<rparr>)"
    by simp
  have st: "stoll ?w = Inr v"
    using sign ds rest(1) v range by (rule stoll_numeric_prefix)
  show ?thesis
    by (simp add: try_read_int_def skip rw st Let_def)
qed

lemma go_loop_Nil: "go_loop [] reader go_args = Some (Inr go_args)"
  by (subst go_loop.simps) simp


text \<open>
  \<open>GoArgs::depth\<close> is an \<open>int\<close>: a value within the range of \<open>int\<close> is stored as
  it is.
\<close>

lemma int64_to_int_in_range: "INT_MIN \<le> v \<Longrightarrow> v \<le> INT_MAX \<Longrightarrow> int64_to_int v = v"
  by (simp add: int64_to_int_def INT_MIN_def INT_MAX_def)

text \<open>
  One round of the loop of the \<open>go\<close> handler on a key other than \<open>infinite\<close>, and the
  handler on a line that consists of one key and one word with a numeric prefix, for any
  key that reads an integer and stores it.
\<close>

lemma go_loop_key:
  assumes "word \<noteq> []" and "word \<noteq> ''infinite''"
    and "go_key word reader (go_args\<lparr>infinite_flag := False\<rparr>) = Inr (reader', go_args')"
    and "read_word reader' = (word', reader'')"
  shows "go_loop word reader go_args = go_loop word' reader'' go_args'"
  by (subst go_loop.simps) (simp add: assms)

lemma go_single_limit:
  assumes sign: "sg = [] \<or> sg = ''+'' \<or> sg = ''-''"
    and ds: "ds \<noteq> []" "\<forall>c \<in> set ds. isdigit c"
    and rest: "rest = [] \<or> \<not> isdigit (hd rest)" "\<forall>c \<in> set rest. \<not> isspace c"
    and v: "v = (if sg = ''-'' then - digits_value ds else digits_value ds)"
    and range: "INT64_MIN \<le> v" "v \<le> INT64_MAX"
    and key: "key \<noteq> []" "key \<noteq> ''infinite''" "\<forall>c \<in> set key. \<not> isspace c"
    and gk: "\<And>reader n reader' a. read_int reader = (Inr n, reader')
               \<Longrightarrow> go_key key reader a = Inr (reader', upd n a)"
  shows "go_handler (key @ '' '' @ sg @ ds @ rest)
         = Some (Inr (upd v (new_GoArgs\<lparr>infinite_flag := False\<rparr>)))"
proof -
  let ?w = "sg @ ds @ rest"
  let ?s = "key @ '' '' @ ?w"
  let ?r = "\<lambda>n. \<lparr>m_arg_str = ?s, m_pos = n\<rparr>"
  have "read_word (?r 0)
        = (key, (?r 0)\<lparr>m_pos := length ([] :: string) + length ([] :: string) + length key\<rparr>)"
    using key by (intro read_word_append [where post = "'' '' @ ?w"]) (simp_all add: isspace_def)
  then have first: "read_word (new_ArgReader ?s) = (key, ?r (length key))"
    by (simp add: new_ArgReader_def)
  have "try_read_int (?r (length key))
        = (Inr (Some v), (?r (length key))\<lparr>m_pos := length key + length '' '' + length ?w\<rparr>)"
    using sign ds rest v range
    by (intro try_read_int_numeric_prefix [where pre = key and ws = "'' ''" and post = "[]"])
      (simp_all add: isspace_def)
  then have num: "read_int (?r (length key)) = (Inr v, ?r (length key + 1 + length ?w))"
    by (simp add: read_int_def)
  have "read_word (?r (length key + 1 + length ?w))
        = ([], (?r (length key + 1 + length ?w))\<lparr>m_pos := length ?s + length ([] :: string)
                                              + length ([] :: string)\<rparr>)"
    by (rule read_word_append [where post = "[]"]) simp_all
  then have last: "read_word (?r (length key + 1 + length ?w)) = ([], ?r (length key + 1 + length ?w))"
    by simp
  have "go_handler ?s = go_loop key (?r (length key)) new_GoArgs"
    unfolding go_handler_def first by simp
  also have "\<dots> = go_loop [] (?r (length key + 1 + length ?w))
                      (upd v (new_GoArgs\<lparr>infinite_flag := False\<rparr>))"
    by (rule go_loop_key [OF key(1,2) gk [OF num] last])
  finally show ?thesis
    by (simp only: go_loop_Nil)
qed

text \<open>
  C10 as claimed does not hold for \<open>depth\<close>: the word \<open>2147483648x\<close> has a valid
  numeric prefix, which \<open>try_read_int\<close> returns, but \<open>go depth 2147483648x\<close> passes
  on the depth \<open>-2147483648\<close>, not the prefix value, since \<open>GoArgs::depth\<close> is a
  32-bit \<open>int\<close>.
\<close>

theorem go_depth_beyond_int:
  "fst (try_read_int (new_ArgReader ''2147483648x'')) = Inr (Some 2147483648)
   \<and> go_handler ''depth 2147483648x''
     = Some (Inr (new_GoArgs\<lparr>infinite_flag := False, depth := Some (- 2147483648)\<rparr>))
   \<and> go_handler ''depth 2147483648x''
     \<noteq> Some (Inr (new_GoArgs\<lparr>infinite_flag := False, depth := Some 2147483648\<rparr>))"
  by code_simp

text \<open>
  C10, as the code has it. For every reader whose next word, after whitespace, is an
  optional sign and one or more digits, with a value that fits 64 bits, followed by at
  least one more character, the first of them not a digit: \<open>try_read_int\<close> and
  \<open>read_int\<close> return the value of the numeric prefix and leave the cursor after the
  whole word, trailing characters included. So the \<open>go\<close> handler, on one of the keys
  \<open>wtime\<close>, \<open>winc\<close>, \<open>btime\<close>, \<open>binc\<close>, \<open>nodes\<close> and \<open>movetime\<close>
  followed by such a word, passes on the limits with that value and \<open>infinite = false\<close>;
  and on \<open>depth\<close> followed by such a word it does so when the value is within the
  range of the 32-bit \<open>int\<close>.
\<close>

theorem read_int_accepts_numeric_prefix:
  assumes str: "m_arg_str r = pre @ ws @ (sg @ ds @ rest) @ post"
    and pos: "m_pos r = length pre"
    and ws: "\<forall>c \<in> set ws. isspace c"
    and sign: "sg = [] \<or> sg = ''+'' \<or> sg = ''-''"
    and ds: "ds \<noteq> []" "\<forall>c \<in> set ds. isdigit c"
    and rest: "rest \<noteq> []" "\<not> isdigit (hd rest)" "\<forall>c \<in> set rest. \<not> isspace c"
    and post: "post = [] \<or> isspace (hd post)"
    and v: "v = (if sg = ''-'' then - digits_value ds else digits_value ds)"
    and range: "INT64_MIN \<le> v" "v \<le> INT64_MAX"
  shows "try_read_int r
         = (Inr (Some v), r\<lparr>m_pos := length pre + length ws + length (sg @ ds @ rest)\<rparr>)
    \<and> read_int r
         = (Inr v, r\<lparr>m_pos := length pre + length ws + length (sg @ ds @ rest)\<rparr>)
    \<and> go_handler (''wtime '' @ sg @ ds @ rest)
         = Some (Inr (new_GoArgs\<lparr>infinite_flag := False, w_time := Some v\<rparr>))
    \<and> go_handler (''winc '' @ sg @ ds @ rest)
         = Some (Inr (new_GoArgs\<lparr>infinite_flag := False, w_inc := Some v\<rparr>))
    \<and> go_handler (''btime '' @ sg @ ds @ rest)
         = Some (Inr (new_GoArgs\<lparr>infinite_flag := False, b_time := Some v\<rparr>))
    \<and> go_handler (''binc '' @ sg @ ds @ rest)
         = Some (Inr (new_GoArgs\<lparr>infinite_flag := False, b_inc := Some v\<rparr>))
    \<and> go_handler (''nodes '' @ sg @ ds @ rest)
         = Some (Inr (new_GoArgs\<lparr>infinite_flag := False, nodes := Some v\<rparr>))
    \<and> go_handler (''movetime '' @ sg @ ds @ rest)
         = Some (Inr (new_GoArgs\<lparr>infinite_flag := False, move_time := Some v\<rparr>))
    \<and> (INT_MIN \<le> v \<and> v \<le> INT_MAX \<longrightarrow>
        go_handler (''depth '' @ sg @ ds @ rest)
         = Some (Inr (new_GoArgs\<lparr>infinite_flag := False, depth := Some v\<rparr>)))"
proof -
  have rest': "rest = [] \<or> \<not> isdigit (hd rest)" using rest(2) by simp
  have tr: "try_read_int r
         = (Inr (Some v), r\<lparr>m_pos := length pre + length ws + length (sg @ ds @ rest)\<rparr>)"
    using str pos ws sign ds rest' rest(3) post v range by (rule try_read_int_numeric_prefix)
  then have rd: "read_int r
         = (Inr v, r\<lparr>m_pos := length pre + length ws + length (sg @ ds @ rest)\<rparr>)"
    by (simp add: read_int_def)
  note limit = go_single_limit [OF sign ds rest' rest(3) v range]
  have wtime: "go_handler (''wtime'' @ '' '' @ sg @ ds @ rest)
         = Some (Inr (new_GoArgs\<lparr>infinite_flag := False, w_time := Some v\<rparr>))"
    by (rule limit [where key = "''wtime''" and upd = "\<lambda>n a. a\<lparr>w_time := Some n\<rparr>"])
      (simp_all add: go_key_def isspace_def)
  have winc: "go_handler (''winc'' @ '' '' @ sg @ ds @ rest)
         = Some (Inr (new_GoArgs\<lparr>infinite_flag := False, w_inc := Some v\<rparr>))"
    by (rule limit [where key = "''winc''" and upd = "\<lambda>n a. a\<lparr>w_inc := Some n\<rparr>"])
      (simp_all add: go_key_def isspace_def)
  have btime: "go_handler (''btime'' @ '' '' @ sg @ ds @ rest)
         = Some (Inr (new_GoArgs\<lparr>infinite_flag := False, b_time := Some v\<rparr>))"
    by (rule limit [where key = "''btime''" and upd = "\<lambda>n a. a\<lparr>b_time := Some n\<rparr>"])
      (simp_all add: go_key_def isspace_def)
  have binc: "go_handler (''binc'' @ '' '' @ sg @ ds @ rest)
         = Some (Inr (new_GoArgs\<lparr>infinite_flag := False, b_inc := Some v\<rparr>))"
    by (rule limit [where key = "''binc''" and upd = "\<lambda>n a. a\<lparr>b_inc := Some n\<rparr>"])
      (simp_all add: go_key_def isspace_def)
  have nodes: "go_handler (''nodes'' @ '' '' @ sg @ ds @ rest)
         = Some (Inr (new_GoArgs\<lparr>infinite_flag := False, nodes := Some v\<rparr>))"
    by (rule limit [where key = "''nodes''" and upd = "\<lambda>n a. a\<lparr>nodes := Some n\<rparr>"])
      (simp_all add: go_key_def isspace_def)
  have movetime: "go_handler (''movetime'' @ '' '' @ sg @ ds @ rest)
         = Some (Inr (new_GoArgs\<lparr>infinite_flag := False, move_time := Some v\<rparr>))"
    by (rule limit [where key = "''movetime''" and upd = "\<lambda>n a. a\<lparr>move_time := Some n\<rparr>"])
      (simp_all add: go_key_def isspace_def)
  have depth: "go_handler (''depth'' @ '' '' @ sg @ ds @ rest)
         = Some (Inr (new_GoArgs\<lparr>infinite_flag := False, depth := Some (int64_to_int v)\<rparr>))"
    by (rule limit [where key = "''depth''"
          and upd = "\<lambda>n a. a\<lparr>depth := Some (int64_to_int n)\<rparr>"])
      (simp_all add: go_key_def isspace_def)
  from tr rd wtime winc btime binc nodes movetime depth show ?thesis
    by (simp add: int64_to_int_in_range)
qed

text \<open>
  C10 at the words \<open>42abc\<close> and \<open>5x\<close>: 42 is read and the cursor is after the five
  characters; \<open>go\<close> with any of the seven keys and \<open>5x\<close> gives the value 5.
\<close>

theorem read_int_accepts_numeric_prefix_witness:
  "try_read_int (new_ArgReader ''42abc'')
     = (Inr (Some 42), \<lparr>m_arg_str = ''42abc'', m_pos = 5\<rparr>)
   \<and> read_int (new_ArgReader ''42abc'') = (Inr 42, \<lparr>m_arg_str = ''42abc'', m_pos = 5\<rparr>)
   \<and> go_handler ''wtime 5x'' = Some (Inr (new_GoArgs\<lparr>infinite_flag := False, w_time := Some 5\<rparr>))
   \<and> go_handler ''winc 5x'' = Some (Inr (new_GoArgs\<lparr>infinite_flag := False, w_inc := Some 5\<rparr>))
   \<and> go_handler ''btime 5x'' = Some (Inr (new_GoArgs\<lparr>infinite_flag := False, b_time := Some 5\<rparr>))
   \<and> go_handler ''binc 5x'' = Some (Inr (new_GoArgs\<lparr>infinite_flag := False, b_inc := Some 5\<rparr>))
   \<and> go_handler ''nodes 5x'' = Some (Inr (new_GoArgs\<lparr>infinite_flag := False, nodes := Some 5\<rparr>))
   \<and> go_handler ''movetime 5x'' = Some (Inr (new_GoArgs\<lparr>infinite_flag := False, move_time := Some 5\<rparr>))
   \<and> go_handler ''depth 5x'' = Some (Inr (new_GoArgs\<lparr>infinite_flag := False, depth := Some 5\<rparr>))"
proof -
  note a = read_int_accepts_numeric_prefix
    [where r = "new_ArgReader ''42abc''" and pre = "[]" and ws = "[]" and sg = "[]"
       and ds = "''42''" and rest = "''abc''" and post = "[]" and v = 42]
  note b = read_int_accepts_numeric_prefix
    [where r = "new_ArgReader ''5x''" and pre = "[]" and ws = "[]" and sg = "[]"
       and ds = "''5''" and rest = "''x''" and post = "[]" and v = 5]
  have "try_read_int (new_ArgReader ''42abc'')
          = (Inr (Some 42), \<lparr>m_arg_str = ''42abc'', m_pos = 5\<rparr>)
        \<and> read_int (new_ArgReader ''42abc'') = (Inr 42, \<lparr>m_arg_str = ''42abc'', m_pos = 5\<rparr>)"
    using a
    by (simp add: new_ArgReader_def isdigit_def isspace_def less_eq_char_def
        digits_value_def digit_value_def INT64_MIN_def INT64_MAX_def)
  moreover have "(go_handler ''wtime 5x'' = Some (Inr (new_GoArgs\<lparr>infinite_flag := False, w_time := Some 5\<rparr>))
     \<and> go_handler ''winc 5x'' = Some (Inr (new_GoArgs\<lparr>infinite_flag := False, w_inc := Some 5\<rparr>))
     \<and> go_handler ''btime 5x'' = Some (Inr (new_GoArgs\<lparr>infinite_flag := False, b_time := Some 5\<rparr>))
     \<and> go_handler ''binc 5x'' = Some (Inr (new_GoArgs\<lparr>infinite_flag := False, b_inc := Some 5\<rparr>))
     \<and> go_handler ''nodes 5x'' = Some (Inr (new_GoArgs\<lparr>infinite_flag := False, nodes := Some 5\<rparr>))
     \<and> go_handler ''movetime 5x''
         = Some (Inr (new_GoArgs\<lparr>infinite_flag := False, move_time := Some 5\<rparr>)))
     \<and> go_handler ''depth 5x'' = Some (Inr (new_GoArgs\<lparr>infinite_flag := False, depth := Some 5\<rparr>))"
    using b
    by (simp add: new_ArgReader_def isdigit_def isspace_def less_eq_char_def
        digits_value_def digit_value_def INT64_MIN_def INT64_MAX_def INT_MIN_def INT_MAX_def)
  ultimately show ?thesis by simp
qed

end
